theory Spec2Isabelle
  imports Main "HOL-Library.Sublist"
begin

section \<open>Request composables over a query-caching library\<close>

text \<open>
  The two composable modules, \<^verbatim>\<open>useRequest.ts\<close> and \<^verbatim>\<open>useRequestMutation.ts\<close>, wrap the
  hooks \<^verbatim>\<open>useQuery\<close>, \<^verbatim>\<open>useMutation\<close> and \<^verbatim>\<open>useQueryClient\<close> of an external library. The
  library's code is not part of the repository, so the hooks are parameters of the model:
  \<^item> a composable takes the hook it calls as an argument and returns what the hook returns
    (the object a composable returns only re-exports fields of the hook's result);
  \<^item> what a handler does to its collaborators (the query client, the caller's callbacks)
    is the list of calls it makes, in the order it makes them;
  \<^item> \<^verbatim>\<open>fetch\<close>, \<^verbatim>\<open>response.json()\<close> and \<^verbatim>\<open>JSON.stringify\<close> are platform functions; a
    promise that rejects and an exception are \<open>Inl\<close> of a sum.
\<close>

subsection \<open>Platform: fetch, responses, errors\<close>

text \<open>
  \<open>HttpError s\<close> is the source's \<^verbatim>\<open>new Error(`HTTP error! status: ${response.status}`)\<close>;
  \<open>Rejected m\<close> is a rejection or exception of a platform function (with its message),
  which an \<^verbatim>\<open>async\<close> function that awaits or returns it passes on unchanged.
\<close>

datatype error = HttpError nat | Rejected string

text \<open>
  A response as far as the source reads it: \<^verbatim>\<open>response.status\<close>, and what the promise
  of \<^verbatim>\<open>response.json()\<close> settles to (\<open>Inl\<close>: it rejects, the body is not JSON text).
\<close>

record 'a Response =
  status :: nat
  json :: "string + 'a"

text \<open>\<^verbatim>\<open>response.ok\<close>: by the Fetch standard, true exactly for a status from 200 to 299.\<close>

definition ok :: "'a Response \<Rightarrow> bool" where
  "ok response = (200 \<le> status response \<and> status response \<le> 299)"

text \<open>
  The second argument of \<^verbatim>\<open>fetch\<close>, as the mutation helpers build it. \<open>body\<close> is what
  \<^verbatim>\<open>JSON.stringify\<close> returned: a text, or \<^verbatim>\<open>undefined\<close> (\<open>None\<close>).
\<close>

record RequestInit =
  "method" :: string
  headers :: "(string \<times> string) list"
  body :: "string option"

text \<open>One call \<^verbatim>\<open>fetch(url)\<close> (\<open>None\<close>) or \<^verbatim>\<open>fetch(url, init)\<close>.\<close>

type_synonym FetchCall = "string \<times> RequestInit option"

text \<open>\<^verbatim>\<open>fetch\<close>: the promise rejects (\<open>Inl\<close>, no response at all) or resolves to a response.\<close>

type_synonym 'a Fetch = "FetchCall \<Rightarrow> string + 'a Response"

text \<open>\<^verbatim>\<open>JSON.stringify\<close>: throws (\<open>Inl\<close>), or returns a text or \<^verbatim>\<open>undefined\<close>.\<close>

type_synonym 'v Stringify = "'v \<Rightarrow> string + string option"

text \<open>
  A request function runs against the platform and yields the calls to \<^verbatim>\<open>fetch\<close> it made
  and how its promise settled.
\<close>

type_synonym 'a Settled = "FetchCall list \<times> (error + 'a)"

subsection \<open>useRequest.ts\<close>

text \<open>\<^verbatim>\<open>enabled?: Ref<boolean> | boolean\<close> and \<^verbatim>\<open>retry?: number | boolean\<close>.\<close>

datatype 'r Enabled = Plain bool | RefBool 'r

datatype Retry = RetryCount int | RetryFlag bool

text \<open>
  \<^verbatim>\<open>Omit<UseRequestOptions<T>, 'queryKey' | 'queryFn'>\<close>: the five optional properties.
  \<open>None\<close> is a property that is missing or \<^verbatim>\<open>undefined\<close>.
\<close>

record 'r UseRequestOptional =
  enabled :: "'r Enabled option"
  staleTime :: "int option"
  cacheTime :: "int option"
  refetchOnWindowFocus :: "bool option"
  retry :: "Retry option"

text \<open>\<^verbatim>\<open>UseRequestOptions<T>\<close>: the optional properties and the two required ones.\<close>

record ('r, 'f) UseRequestOptions = "'r UseRequestOptional" +
  queryKey :: "string list"
  queryFn :: 'f

text \<open>The object literal that \<^verbatim>\<open>useRequest\<close> passes to \<^verbatim>\<open>useQuery\<close>: every property set.\<close>

record ('r, 'f) UseQueryArgs =
  q_queryKey :: "string list"
  q_queryFn :: 'f
  q_enabled :: "'r Enabled"
  q_staleTime :: int
  q_cacheTime :: int
  q_refetchOnWindowFocus :: bool
  q_retry :: Retry

text \<open>
  \<^verbatim>\<open>useRequest\<close>: destructuring with defaults (a default applies to a property that is
  missing or \<^verbatim>\<open>undefined\<close>), then \<^verbatim>\<open>useQuery\<close>. The returned object holds
  \<^verbatim>\<open>data, error, isPending, isFetching, isError, isSuccess, refetch\<close> of that query.
\<close>

definition useRequest ::
  "(('r, 'f) UseQueryArgs \<Rightarrow> 'q) \<Rightarrow> ('r, 'f) UseRequestOptions \<Rightarrow> 'q" where
  "useRequest useQuery options =
     (let enabled' = (case enabled options of None \<Rightarrow> Plain True | Some v \<Rightarrow> v);
          staleTime' = (case staleTime options of None \<Rightarrow> 5 * 60 * 1000 | Some v \<Rightarrow> v);
          cacheTime' = (case cacheTime options of None \<Rightarrow> 10 * 60 * 1000 | Some v \<Rightarrow> v);
          refetchOnWindowFocus' =
            (case refetchOnWindowFocus options of None \<Rightarrow> False | Some v \<Rightarrow> v);
          retry' = (case retry options of None \<Rightarrow> RetryCount 3 | Some v \<Rightarrow> v);
          query = useQuery \<lparr>
            q_queryKey = queryKey options,
            q_queryFn = queryFn options,
            q_enabled = enabled',
            q_staleTime = staleTime',
            q_cacheTime = cacheTime',
            q_refetchOnWindowFocus = refetchOnWindowFocus',
            q_retry = retry' \<rparr>
      in query)"

text \<open>The \<^verbatim>\<open>queryFn\<close> closure of \<^verbatim>\<open>useGetRequest\<close>, over \<open>url\<close>.\<close>

definition useGetRequest_queryFn :: "'a Fetch \<Rightarrow> string \<Rightarrow> 'a Settled" where
  "useGetRequest_queryFn fetch url =
     (let call = (url, None) in
      case fetch call of
        Inl reason \<Rightarrow> ([call], Inl (Rejected reason))
      | Inr response \<Rightarrow>
          if \<not> ok response then ([call], Inl (HttpError (status response)))
          else (case json response of
                  Inl reason \<Rightarrow> ([call], Inl (Rejected reason))
                | Inr parsed \<Rightarrow> ([call], Inr parsed)))"

text \<open>
  \<^verbatim>\<open>useGetRequest\<close>: the object literal sets \<^verbatim>\<open>queryKey\<close> and \<^verbatim>\<open>queryFn\<close> and then
  spreads \<open>options\<close>, which by its type has neither of the two; spreading \<^verbatim>\<open>undefined\<close>
  (\<open>None\<close>) adds nothing.
\<close>

definition useGetRequest ::
  "(('r, 'a Fetch \<Rightarrow> 'a Settled) UseQueryArgs \<Rightarrow> 'q) \<Rightarrow> string \<Rightarrow>
     'r UseRequestOptional option \<Rightarrow> 'q" where
  "useGetRequest useQuery url options =
     useRequest useQuery \<lparr>
       enabled = (case options of None \<Rightarrow> None | Some opt \<Rightarrow> enabled opt),
       staleTime = (case options of None \<Rightarrow> None | Some opt \<Rightarrow> staleTime opt),
       cacheTime = (case options of None \<Rightarrow> None | Some opt \<Rightarrow> cacheTime opt),
       refetchOnWindowFocus =
         (case options of None \<Rightarrow> None | Some opt \<Rightarrow> refetchOnWindowFocus opt),
       retry = (case options of None \<Rightarrow> None | Some opt \<Rightarrow> retry opt),
       queryKey = [''get'', url],
       queryFn = (\<lambda>fetch. useGetRequest_queryFn fetch url) \<rparr>"

subsection \<open>useRequestMutation.ts\<close>

text \<open>
  The calls a handler makes: \<^verbatim>\<open>queryClient.invalidateQueries({ queryKey })\<close>, the caller's
  \<^verbatim>\<open>onSuccess(data, variables)\<close> and the caller's \<^verbatim>\<open>onError(error, variables)\<close>. The
  callbacks are the caller's functions; the model keeps which one was called, with what.
\<close>

datatype ('c, 'd, 'v, 'e) Call =
  InvalidateQueries "string list"
| OnSuccess 'c 'd 'v
| OnError 'c 'e 'v

text \<open>
  \<^verbatim>\<open>Omit<UseRequestMutationOptions<TData, TVariables>, 'mutationFn'>\<close>; \<open>None\<close> is a property
  that is missing or \<^verbatim>\<open>undefined\<close>.
\<close>

record 'c UseRequestMutationOptional =
  onSuccess :: "'c option"
  onError :: "'c option"
  invalidateQueries :: "string list list option"

record ('c, 'f) UseRequestMutationOptions = "'c UseRequestMutationOptional" +
  mutationFn :: 'f

text \<open>The object literal that \<^verbatim>\<open>useRequestMutation\<close> passes to \<^verbatim>\<open>useMutation\<close>.\<close>

record ('c, 'd, 'v, 'e, 'f) UseMutationArgs =
  m_mutationFn :: 'f
  m_onSuccess :: "'d \<Rightarrow> 'v \<Rightarrow> ('c, 'd, 'v, 'e) Call list"
  m_onError :: "'e \<Rightarrow> 'v \<Rightarrow> ('c, 'd, 'v, 'e) Call list"

text \<open>
  The \<^verbatim>\<open>onSuccess\<close> arrow function of \<^verbatim>\<open>useRequestMutation\<close>: the \<^verbatim>\<open>forEach\<close> over
  \<^verbatim>\<open>invalidateQueries\<close> (default \<^verbatim>\<open>[]\<close>), in index order, and after it the
  \<^verbatim>\<open>if (onSuccess)\<close>.
\<close>

definition useRequestMutation_onSuccess ::
  "('c, 'f) UseRequestMutationOptions \<Rightarrow> 'd \<Rightarrow> 'v \<Rightarrow> ('c, 'd, 'v, 'e) Call list" where
  "useRequestMutation_onSuccess options data variables =
     (let invalidateQueries' =
            (case invalidateQueries options of None \<Rightarrow> [] | Some keys \<Rightarrow> keys)
      in map (\<lambda>queryKey. InvalidateQueries queryKey) invalidateQueries'
         @ (case onSuccess options of
              None \<Rightarrow> []
            | Some callback \<Rightarrow> [OnSuccess callback data variables]))"

text \<open>The \<^verbatim>\<open>onError\<close> arrow function of \<^verbatim>\<open>useRequestMutation\<close>.\<close>

definition useRequestMutation_onError ::
  "('c, 'f) UseRequestMutationOptions \<Rightarrow> 'e \<Rightarrow> 'v \<Rightarrow> ('c, 'd, 'v, 'e) Call list" where
  "useRequestMutation_onError options err variables =
     (case onError options of
        None \<Rightarrow> []
      | Some callback \<Rightarrow> [OnError callback err variables])"

text \<open>
  \<^verbatim>\<open>useRequestMutation\<close>: the returned object holds \<^verbatim>\<open>mutate, mutateAsync, data, error,
  isPending, isError, isSuccess, reset\<close> of the mutation that \<^verbatim>\<open>useMutation\<close> returns.
\<close>

definition useRequestMutation ::
  "(('c, 'd, 'v, 'e, 'f) UseMutationArgs \<Rightarrow> 'm) \<Rightarrow> ('c, 'f) UseRequestMutationOptions \<Rightarrow> 'm" where
  "useRequestMutation useMutation options =
     (let mutation = useMutation \<lparr>
            m_mutationFn = mutationFn options,
            m_onSuccess = useRequestMutation_onSuccess options,
            m_onError = useRequestMutation_onError options \<rparr>
      in mutation)"

text \<open>
  The \<^verbatim>\<open>mutationFn\<close> closures of the three helpers, over \<open>url\<close>. \<^verbatim>\<open>JSON.stringify\<close> runs
  while the argument of \<^verbatim>\<open>fetch\<close> is built, so when it throws there is no call.
\<close>

definition usePostRequest_mutationFn ::
  "'a Fetch \<Rightarrow> 'v Stringify \<Rightarrow> string \<Rightarrow> 'v \<Rightarrow> 'a Settled" where
  "usePostRequest_mutationFn fetch stringify url variables =
     (case stringify variables of
        Inl reason \<Rightarrow> ([], Inl (Rejected reason))
      | Inr text \<Rightarrow>
          (let call = (url, Some \<lparr>
                 method = ''POST'',
                 headers = [(''Content-Type'', ''application/json'')],
                 body = text \<rparr>)
           in case fetch call of
                Inl reason \<Rightarrow> ([call], Inl (Rejected reason))
              | Inr response \<Rightarrow>
                  if \<not> ok response then ([call], Inl (HttpError (status response)))
                  else (case json response of
                          Inl reason \<Rightarrow> ([call], Inl (Rejected reason))
                        | Inr parsed \<Rightarrow> ([call], Inr parsed))))"

definition usePutRequest_mutationFn ::
  "'a Fetch \<Rightarrow> 'v Stringify \<Rightarrow> string \<Rightarrow> 'v \<Rightarrow> 'a Settled" where
  "usePutRequest_mutationFn fetch stringify url variables =
     (case stringify variables of
        Inl reason \<Rightarrow> ([], Inl (Rejected reason))
      | Inr text \<Rightarrow>
          (let call = (url, Some \<lparr>
                 method = ''PUT'',
                 headers = [(''Content-Type'', ''application/json'')],
                 body = text \<rparr>)
           in case fetch call of
                Inl reason \<Rightarrow> ([call], Inl (Rejected reason))
              | Inr response \<Rightarrow>
                  if \<not> ok response then ([call], Inl (HttpError (status response)))
                  else (case json response of
                          Inl reason \<Rightarrow> ([call], Inl (Rejected reason))
                        | Inr parsed \<Rightarrow> ([call], Inr parsed))))"

definition useDeleteRequest_mutationFn ::
  "'a Fetch \<Rightarrow> 'v Stringify \<Rightarrow> string \<Rightarrow> 'v \<Rightarrow> 'a Settled" where
  "useDeleteRequest_mutationFn fetch stringify url variables =
     (case stringify variables of
        Inl reason \<Rightarrow> ([], Inl (Rejected reason))
      | Inr text \<Rightarrow>
          (let call = (url, Some \<lparr>
                 method = ''DELETE'',
                 headers = [(''Content-Type'', ''application/json'')],
                 body = text \<rparr>)
           in case fetch call of
                Inl reason \<Rightarrow> ([call], Inl (Rejected reason))
              | Inr response \<Rightarrow>
                  if \<not> ok response then ([call], Inl (HttpError (status response)))
                  else (case json response of
                          Inl reason \<Rightarrow> ([call], Inl (Rejected reason))
                        | Inr parsed \<Rightarrow> ([call], Inr parsed))))"

text \<open>
  The helpers set \<^verbatim>\<open>mutationFn\<close> and then spread \<open>options\<close>, which by its type has no
  \<^verbatim>\<open>mutationFn\<close>.
\<close>

definition usePostRequest ::
  "(('c, 'a, 'v, 'e, 'a Fetch \<Rightarrow> 'v Stringify \<Rightarrow> 'v \<Rightarrow> 'a Settled) UseMutationArgs \<Rightarrow> 'm) \<Rightarrow>
     string \<Rightarrow> 'c UseRequestMutationOptional option \<Rightarrow> 'm" where
  "usePostRequest useMutation url options =
     useRequestMutation useMutation \<lparr>
       onSuccess = (case options of None \<Rightarrow> None | Some opt \<Rightarrow> onSuccess opt),
       onError = (case options of None \<Rightarrow> None | Some opt \<Rightarrow> onError opt),
       invalidateQueries =
         (case options of None \<Rightarrow> None | Some opt \<Rightarrow> invalidateQueries opt),
       mutationFn = (\<lambda>fetch stringify variables.
         usePostRequest_mutationFn fetch stringify url variables) \<rparr>"

definition usePutRequest ::
  "(('c, 'a, 'v, 'e, 'a Fetch \<Rightarrow> 'v Stringify \<Rightarrow> 'v \<Rightarrow> 'a Settled) UseMutationArgs \<Rightarrow> 'm) \<Rightarrow>
     string \<Rightarrow> 'c UseRequestMutationOptional option \<Rightarrow> 'm" where
  "usePutRequest useMutation url options =
     useRequestMutation useMutation \<lparr>
       onSuccess = (case options of None \<Rightarrow> None | Some opt \<Rightarrow> onSuccess opt),
       onError = (case options of None \<Rightarrow> None | Some opt \<Rightarrow> onError opt),
       invalidateQueries =
         (case options of None \<Rightarrow> None | Some opt \<Rightarrow> invalidateQueries opt),
       mutationFn = (\<lambda>fetch stringify variables.
         usePutRequest_mutationFn fetch stringify url variables) \<rparr>"

definition useDeleteRequest ::
  "(('c, 'a, 'v, 'e, 'a Fetch \<Rightarrow> 'v Stringify \<Rightarrow> 'v \<Rightarrow> 'a Settled) UseMutationArgs \<Rightarrow> 'm) \<Rightarrow>
     string \<Rightarrow> 'c UseRequestMutationOptional option \<Rightarrow> 'm" where
  "useDeleteRequest useMutation url options =
     useRequestMutation useMutation \<lparr>
       onSuccess = (case options of None \<Rightarrow> None | Some opt \<Rightarrow> onSuccess opt),
       onError = (case options of None \<Rightarrow> None | Some opt \<Rightarrow> onError opt),
       invalidateQueries =
         (case options of None \<Rightarrow> None | Some opt \<Rightarrow> invalidateQueries opt),
       mutationFn = (\<lambda>fetch stringify variables.
         useDeleteRequest_mutationFn fetch stringify url variables) \<rparr>"

section \<open>Properties\<close>

subsection \<open>Calls of a handler\<close>

fun is_invalidation :: "('c, 'd, 'v, 'e) Call \<Rightarrow> bool" where
  "is_invalidation (InvalidateQueries key) = True"
| "is_invalidation (OnSuccess callback data variables) = False"
| "is_invalidation (OnError callback err variables) = False"

fun is_success_callback :: "('c, 'd, 'v, 'e) Call \<Rightarrow> bool" where
  "is_success_callback (InvalidateQueries key) = False"
| "is_success_callback (OnSuccess callback data variables) = True"
| "is_success_callback (OnError callback err variables) = False"

text \<open>The key patterns a list of calls invalidates, in order.\<close>

fun invalidated :: "('c, 'd, 'v, 'e) Call list \<Rightarrow> string list list" where
  "invalidated [] = []"
| "invalidated (InvalidateQueries key # calls) = key # invalidated calls"
| "invalidated (OnSuccess callback data variables # calls) = invalidated calls"
| "invalidated (OnError callback err variables # calls) = invalidated calls"

text \<open>
  The order the specification gives: the caller's callback first, invalidation only
  afterwards, so no call of the callback comes after an invalidation.
\<close>

fun callback_before_invalidation :: "('c, 'd, 'v, 'e) Call list \<Rightarrow> bool" where
  "callback_before_invalidation [] = True"
| "callback_before_invalidation (call # calls) =
     ((is_invalidation call \<longrightarrow> list_all (\<lambda>later. \<not> is_success_callback later) calls)
      \<and> callback_before_invalidation calls)"

text \<open>The opposite order: no invalidation comes after a call of the callback.\<close>

fun invalidation_before_callback :: "('c, 'd, 'v, 'e) Call list \<Rightarrow> bool" where
  "invalidation_before_callback [] = True"
| "invalidation_before_callback (call # calls) =
     ((is_success_callback call \<longrightarrow> list_all (\<lambda>later. \<not> is_invalidation later) calls)
      \<and> invalidation_before_callback calls)"

subsection \<open>Outcomes of a request function\<close>

text \<open>The function threw the error of its own status check.\<close>

fun throws_http_error :: "error + 'a \<Rightarrow> bool" where
  "throws_http_error (Inl (HttpError code)) = True"
| "throws_http_error (Inl (Rejected reason)) = False"
| "throws_http_error (Inr parsed) = False"

text \<open>What \<^verbatim>\<open>return response.json()\<close> settles an \<^verbatim>\<open>async\<close> function to.\<close>

definition response_json :: "'a Response \<Rightarrow> error + 'a" where
  "response_json response =
     (case json response of Inl reason \<Rightarrow> Inl (Rejected reason) | Inr parsed \<Rightarrow> Inr parsed)"

text \<open>
  A request function keeps the HTTP contract for a call when it makes exactly that call
  and then: passes a rejection of \<^verbatim>\<open>fetch\<close> on; throws the error of the status check,
  carrying the status, exactly when the status is outside 200..299; and otherwise settles
  as \<^verbatim>\<open>response.json()\<close> does.
\<close>

definition http_contract :: "'a Fetch \<Rightarrow> FetchCall \<Rightarrow> 'a Settled \<Rightarrow> bool" where
  "http_contract fetch call settled =
     (fst settled = [call] \<and>
      (case fetch call of
         Inl reason \<Rightarrow> snd settled = Inl (Rejected reason)
       | Inr response \<Rightarrow>
           (throws_http_error (snd settled)
              \<longleftrightarrow> \<not> (200 \<le> status response \<and> status response \<le> 299)) \<and>
           (throws_http_error (snd settled)
              \<longrightarrow> snd settled = Inl (HttpError (status response))) \<and>
           (\<not> throws_http_error (snd settled)
              \<longrightarrow> snd settled = response_json response)))"

text \<open>
  The call of a mutation helper: the URL, the method, the JSON content type and the
  serialised variables as body.
\<close>

definition mutation_call :: "string \<Rightarrow> string \<Rightarrow> string option \<Rightarrow> FetchCall" where
  "mutation_call url verb text =
     (url, Some \<lparr> method = verb,
                  headers = [(''Content-Type'', ''application/json'')],
                  body = text \<rparr>)"

subsection \<open>Concrete inputs\<close>

text \<open>The URL of \<^verbatim>\<open>App.vue\<close> and \<^verbatim>\<open>PostForm.vue\<close>.\<close>

definition posts_url :: string where
  "posts_url = ''https://jsonplaceholder.typicode.com/posts''"

text \<open>
  The options of \<^verbatim>\<open>PostForm.vue\<close>: both callbacks given (named here by what they log),
  and the key of the posts query to invalidate.
\<close>

definition PostForm_options :: "string UseRequestMutationOptional" where
  "PostForm_options = \<lparr>
     onSuccess = Some ''Post created successfully:'',
     onError = Some ''Failed to create post:'',
     invalidateQueries = Some [[''get'', posts_url]] \<rparr>"

text \<open>
  \<^verbatim>\<open>PostForm.vue\<close>: what its \<^verbatim>\<open>usePostRequest\<close> hands to \<^verbatim>\<open>useMutation\<close>. Post data
  are kept as text.
\<close>

definition PostForm_mutation ::
  "(string, string, string, error,
    string Fetch \<Rightarrow> string Stringify \<Rightarrow> string \<Rightarrow> string Settled) UseMutationArgs" where
  "PostForm_mutation = usePostRequest id posts_url (Some PostForm_options)"

text \<open>\<^verbatim>\<open>App.vue\<close>: what its \<^verbatim>\<open>useGetRequest\<close>, called without options, hands to \<^verbatim>\<open>useQuery\<close>.\<close>

definition App_query :: "(unit, string Fetch \<Rightarrow> string Settled) UseQueryArgs" where
  "App_query = useGetRequest id posts_url None"

text \<open>
  A server that answers every call with 204 No Content: the body is empty, so
  \<^verbatim>\<open>response.json()\<close> rejects.
\<close>

definition no_content :: "string Response" where
  "no_content = \<lparr> status = 204, json = Inl ''Unexpected end of JSON input'' \<rparr>"

definition fetch_no_content :: "string Fetch" where
  "fetch_no_content call = Inr no_content"

text \<open>A server that answers every call with 201 Created and a JSON body.\<close>

definition created :: "string Response" where
  "created = \<lparr> status = 201, json = Inr ''id 101'' \<rparr>"

definition fetch_created :: "string Fetch" where
  "fetch_created call = Inr created"

text \<open>A server that answers every call with 500.\<close>

definition server_error :: "string Response" where
  "server_error = \<lparr> status = 500, json = Inr ''error'' \<rparr>"

definition fetch_server_error :: "string Fetch" where
  "fetch_server_error call = Inr server_error"

text \<open>Variables that are serialised as their own text.\<close>

definition stringify_text :: "string Stringify" where
  "stringify_text variables = Inr (Some variables)"

section \<open>Theorems\<close>

subsection \<open>The calls of the success handler\<close>

lemma invalidated_map: "invalidated (map InvalidateQueries keys @ calls) = keys @ invalidated calls"
  by (induction keys) simp_all

lemma invalidation_first:
  "list_all (\<lambda>later. \<not> is_invalidation later) calls \<Longrightarrow> invalidation_before_callback calls"
  by (induction calls) simp_all

lemma invalidation_before_callback_map:
  "list_all (\<lambda>later. \<not> is_invalidation later) calls \<Longrightarrow>
     invalidation_before_callback (map InvalidateQueries keys @ calls)"
  by (induction keys) (simp_all add: invalidation_first)

lemma filter_callback_map:
  "filter is_success_callback (map InvalidateQueries keys @ calls) = filter is_success_callback calls"
  by (induction keys) simp_all

lemma m_onSuccess_useRequestMutation:
  "m_onSuccess (useRequestMutation id options) = useRequestMutation_onSuccess options"
  by (simp add: useRequestMutation_def)

lemma hook_useRequestMutation:
  "useRequestMutation useMutation options = useMutation (useRequestMutation id options)"
  by (simp add: useRequestMutation_def)

text \<open>
  Claim C1, as the code has it. For every mutation that succeeds with data and variables,
  the success handler that \<^verbatim>\<open>useRequestMutation\<close> registers first calls
  \<^verbatim>\<open>queryClient.invalidateQueries\<close> for every key listed in \<^verbatim>\<open>invalidateQueries\<close>, in
  list order, and only afterwards calls the caller's \<^verbatim>\<open>onSuccess(data, variables)\<close>, once,
  when one is provided: no invalidation follows the callback, and the callback is the
  handler's last call.
\<close>

theorem onSuccess_invalidates_then_calls_back:
  "useRequestMutation useMutation options = useMutation (useRequestMutation id options)
   \<and> invalidation_before_callback (m_onSuccess (useRequestMutation id options) data variables)
   \<and> invalidated (m_onSuccess (useRequestMutation id options) data variables)
       = (case invalidateQueries options of None \<Rightarrow> [] | Some keys \<Rightarrow> keys)
   \<and> filter is_success_callback (m_onSuccess (useRequestMutation id options) data variables)
       = (case onSuccess options of
            None \<Rightarrow> []
          | Some callback \<Rightarrow> [OnSuccess callback data variables])
   \<and> (\<forall>callback. onSuccess options = Some callback \<longrightarrow>
         last (m_onSuccess (useRequestMutation id options) data variables)
           = OnSuccess callback data variables)"
proof -
  let ?calls = "m_onSuccess (useRequestMutation id options) data variables"
  have calls: "?calls = useRequestMutation_onSuccess options data variables"
    by (simp add: m_onSuccess_useRequestMutation)
  have "invalidation_before_callback ?calls"
    unfolding calls useRequestMutation_onSuccess_def
    by (simp add: invalidation_before_callback_map split: option.split)
  moreover have "invalidated ?calls
      = (case invalidateQueries options of None \<Rightarrow> [] | Some keys \<Rightarrow> keys)"
    unfolding calls useRequestMutation_onSuccess_def
    by (simp add: invalidated_map split: option.split)
  moreover have "filter is_success_callback ?calls
      = (case onSuccess options of
           None \<Rightarrow> []
         | Some callback \<Rightarrow> [OnSuccess callback data variables])"
    unfolding calls useRequestMutation_onSuccess_def
    by (simp add: filter_callback_map split: option.split)
  moreover have "\<forall>callback. onSuccess options = Some callback \<longrightarrow>
      last ?calls = OnSuccess callback data variables"
    unfolding calls useRequestMutation_onSuccess_def by simp
  ultimately show ?thesis
    using hook_useRequestMutation [of useMutation options] by blast
qed

theorem onSuccess_invalidates_then_calls_back_witness:
  "onSuccess PostForm_options = Some ''Post created successfully:''
   \<and> invalidation_before_callback (m_onSuccess PostForm_mutation ''created'' ''form'')
   \<and> invalidated (m_onSuccess PostForm_mutation ''created'' ''form'') = [[''get'', posts_url]]
   \<and> last (m_onSuccess PostForm_mutation ''created'' ''form'')
       = OnSuccess ''Post created successfully:'' ''created'' ''form''"
proof -
  have given: "onSuccess PostForm_options = Some ''Post created successfully:''"
    and listed: "invalidateQueries PostForm_options = Some [[''get'', posts_url]]"
    by (simp_all add: PostForm_options_def)
  have "invalidation_before_callback (m_onSuccess PostForm_mutation ''created'' ''form'')"
    unfolding PostForm_mutation_def usePostRequest_def
    by (rule onSuccess_invalidates_then_calls_back [THEN conjunct2, THEN conjunct1])
  moreover have "invalidated (m_onSuccess PostForm_mutation ''created'' ''form'')
      = [[''get'', posts_url]]"
    unfolding PostForm_mutation_def usePostRequest_def
    by (simp add: listed
          onSuccess_invalidates_then_calls_back [THEN conjunct2, THEN conjunct2, THEN conjunct1])
  moreover have "last (m_onSuccess PostForm_mutation ''created'' ''form'')
      = OnSuccess ''Post created successfully:'' ''created'' ''form''"
    unfolding PostForm_mutation_def usePostRequest_def
    by (rule onSuccess_invalidates_then_calls_back
          [THEN conjunct2, THEN conjunct2, THEN conjunct2, THEN conjunct2, rule_format])
       (simp add: given)
  ultimately show ?thesis
    using given by simp
qed

text \<open>
  The order of claim C1 as stated, callback first and invalidation afterwards, fails for
  the mutation of \<^verbatim>\<open>PostForm.vue\<close>: its success handler invalidates the posts query and
  then calls the callback.
\<close>

theorem callback_first_counterexample:
  "m_onSuccess PostForm_mutation ''created'' ''form''
     = [InvalidateQueries [''get'', posts_url],
        OnSuccess ''Post created successfully:'' ''created'' ''form'']
   \<and> \<not> callback_before_invalidation (m_onSuccess PostForm_mutation ''created'' ''form'')"
  by (simp add: PostForm_mutation_def usePostRequest_def useRequestMutation_def
        useRequestMutation_onSuccess_def PostForm_options_def)

subsection \<open>The cache key of a GET request\<close>

lemma prefix_get_key:
  "prefix pattern [''get'', url] \<longleftrightarrow> pattern = [] \<or> pattern = [''get''] \<or> pattern = [''get'', url]"
  by (cases pattern; cases "tl pattern"; cases "tl (tl pattern)") (auto simp: prefix_Cons)

lemma useGetRequest_args:
  "q_queryKey (useGetRequest id url options) = [''get'', url]"
  "useGetRequest useQuery url options = useQuery (useGetRequest id url options)"
  by (simp_all add: useGetRequest_def useRequest_def)

text \<open>
  Claim C10. For every URL \<open>u\<close>, \<^verbatim>\<open>useGetRequest(u)\<close> activates its query under exactly the
  two-element key \<open>[''get'', u]\<close>, whatever the options. So two calls have the same key
  exactly when they have the same URL. A successful mutation invalidates exactly the
  patterns listed in its \<^verbatim>\<open>invalidateQueries\<close> (a failed one invalidates none), so it
  invalidates with that key or a prefix of it exactly when the list holds \<open>[''get'', u]\<close>,
  \<open>[''get'']\<close> or \<open>[]\<close>.
\<close>

theorem useGetRequest_key:
  "useGetRequest useQuery url options = useQuery (useGetRequest id url options)
   \<and> q_queryKey (useGetRequest id url options) = [''get'', url]
   \<and> (q_queryKey (useGetRequest id url options) = q_queryKey (useGetRequest id url' options')
        \<longleftrightarrow> url = url')
   \<and> invalidated (m_onSuccess (useRequestMutation id moptions) data variables)
       = (case invalidateQueries moptions of None \<Rightarrow> [] | Some keys \<Rightarrow> keys)
   \<and> ((\<exists>pattern \<in> set (invalidated (m_onSuccess (useRequestMutation id moptions) data variables)).
           prefix pattern (q_queryKey (useGetRequest id url options)))
        \<longleftrightarrow> (\<exists>pattern \<in> set (case invalidateQueries moptions of None \<Rightarrow> [] | Some keys \<Rightarrow> keys).
              pattern = [] \<or> pattern = [''get''] \<or> pattern = [''get'', url]))
   \<and> invalidated (m_onError (useRequestMutation id moptions) err variables) = []"
proof -
  have listed: "invalidated (m_onSuccess (useRequestMutation id moptions) data variables)
      = (case invalidateQueries moptions of None \<Rightarrow> [] | Some keys \<Rightarrow> keys)"
    by (simp add: m_onSuccess_useRequestMutation useRequestMutation_onSuccess_def
          invalidated_map split: option.split)
  have failed: "invalidated (m_onError (useRequestMutation id moptions) err variables) = []"
    by (simp add: useRequestMutation_def useRequestMutation_onError_def split: option.split)
  show ?thesis
    unfolding listed failed useGetRequest_args(1) prefix_get_key
    using useGetRequest_args(2) [of useQuery url options] by simp
qed

theorem useGetRequest_key_witness:
  "q_queryKey App_query = [''get'', posts_url]
   \<and> invalidateQueries PostForm_options = Some [[''get'', posts_url]]
   \<and> invalidated (m_onSuccess PostForm_mutation ''created'' ''form'') = [[''get'', posts_url]]
   \<and> (\<exists>pattern \<in> set (invalidated (m_onSuccess PostForm_mutation ''created'' ''form'')).
        prefix pattern (q_queryKey App_query))"
proof -
  have listed: "invalidateQueries PostForm_options = Some [[''get'', posts_url]]"
    by (simp add: PostForm_options_def)
  have key: "q_queryKey App_query = [''get'', posts_url]"
    unfolding App_query_def
    by (rule useGetRequest_key [THEN conjunct2, THEN conjunct1])
  have patterns: "invalidated (m_onSuccess PostForm_mutation ''created'' ''form'')
      = [[''get'', posts_url]]"
    unfolding PostForm_mutation_def usePostRequest_def
    by (simp add: listed
          useGetRequest_key [THEN conjunct2, THEN conjunct2, THEN conjunct2, THEN conjunct1])
  have "(\<exists>pattern \<in> set (invalidated (m_onSuccess PostForm_mutation ''created'' ''form'')).
          prefix pattern (q_queryKey App_query))
      \<longleftrightarrow> (\<exists>pattern \<in> set [[''get'', posts_url]].
            pattern = [] \<or> pattern = [''get''] \<or> pattern = [''get'', posts_url])"
    unfolding PostForm_mutation_def usePostRequest_def App_query_def
    by (simp add: listed
          useGetRequest_key
            [THEN conjunct2, THEN conjunct2, THEN conjunct2, THEN conjunct2, THEN conjunct1])
  then show ?thesis
    using listed key patterns by simp
qed

subsection \<open>The request functions of the four helpers\<close>

lemma http_contract_checked:
  "http_contract fetch call
     (case fetch call of
        Inl reason \<Rightarrow> ([call], Inl (Rejected reason))
      | Inr response \<Rightarrow>
          if \<not> ok response then ([call], Inl (HttpError (status response)))
          else (case json response of
                  Inl reason \<Rightarrow> ([call], Inl (Rejected reason))
                | Inr parsed \<Rightarrow> ([call], Inr parsed)))"
  by (simp add: http_contract_def ok_def response_json_def split: sum.split)

lemma useGetRequest_queryFn_contract:
  "http_contract fetch (url, None) (useGetRequest_queryFn fetch url)"
  unfolding useGetRequest_queryFn_def Let_def by (rule http_contract_checked)

lemma usePostRequest_mutationFn_contract:
  "case stringify variables of
     Inl reason \<Rightarrow> usePostRequest_mutationFn fetch stringify url variables = ([], Inl (Rejected reason))
   | Inr text \<Rightarrow> http_contract fetch (mutation_call url ''POST'' text)
       (usePostRequest_mutationFn fetch stringify url variables)"
  unfolding usePostRequest_mutationFn_def Let_def
  by (simp add: http_contract_checked mutation_call_def split: sum.split)

lemma usePutRequest_mutationFn_contract:
  "case stringify variables of
     Inl reason \<Rightarrow> usePutRequest_mutationFn fetch stringify url variables = ([], Inl (Rejected reason))
   | Inr text \<Rightarrow> http_contract fetch (mutation_call url ''PUT'' text)
       (usePutRequest_mutationFn fetch stringify url variables)"
  unfolding usePutRequest_mutationFn_def Let_def
  by (simp add: http_contract_checked mutation_call_def split: sum.split)

lemma useDeleteRequest_mutationFn_contract:
  "case stringify variables of
     Inl reason \<Rightarrow> useDeleteRequest_mutationFn fetch stringify url variables = ([], Inl (Rejected reason))
   | Inr text \<Rightarrow> http_contract fetch (mutation_call url ''DELETE'' text)
       (useDeleteRequest_mutationFn fetch stringify url variables)"
  unfolding useDeleteRequest_mutationFn_def Let_def
  by (simp add: http_contract_checked mutation_call_def split: sum.split)

text \<open>
  Claim C8, as the code has it. For every URL, the query function of \<^verbatim>\<open>useGetRequest\<close>
  is the GET function over that URL, and the mutation functions of \<^verbatim>\<open>usePostRequest\<close>,
  \<^verbatim>\<open>usePutRequest\<close> and \<^verbatim>\<open>useDeleteRequest\<close> are the POST, PUT and DELETE functions. The
  GET function calls \<^verbatim>\<open>fetch(url)\<close> once; a mutation function calls \<^verbatim>\<open>fetch\<close> once with
  its method, the JSON content type and the serialised variables as body (and not at all
  when \<^verbatim>\<open>JSON.stringify\<close> throws, which it passes on). Each then keeps the HTTP contract:
  it throws the error of its status check, carrying the status, exactly when the status
  is not 2xx; on a 2xx response it settles as \<^verbatim>\<open>response.json()\<close> does, returning the
  parsed body or passing the rejection on; a rejection of \<^verbatim>\<open>fetch\<close> is passed on too.
\<close>

theorem request_functions_http_contract:
  "q_queryFn (useGetRequest id url options) = (\<lambda>fetch. useGetRequest_queryFn fetch url)
   \<and> m_mutationFn (usePostRequest id url moptions)
       = (\<lambda>fetch stringify variables. usePostRequest_mutationFn fetch stringify url variables)
   \<and> m_mutationFn (usePutRequest id url moptions)
       = (\<lambda>fetch stringify variables. usePutRequest_mutationFn fetch stringify url variables)
   \<and> m_mutationFn (useDeleteRequest id url moptions)
       = (\<lambda>fetch stringify variables. useDeleteRequest_mutationFn fetch stringify url variables)
   \<and> http_contract fetch (url, None) (useGetRequest_queryFn fetch url)
   \<and> (\<forall>(mutationFn', verb) \<in> set [(usePostRequest_mutationFn, ''POST''),
                                      (usePutRequest_mutationFn, ''PUT''),
                                      (useDeleteRequest_mutationFn, ''DELETE'')].
        case stringify variables of
          Inl reason \<Rightarrow>
            mutationFn' fetch stringify url variables = ([], Inl (Rejected reason))
        | Inr text \<Rightarrow>
            http_contract fetch (mutation_call url verb text)
              (mutationFn' fetch stringify url variables))"
proof -
  have "q_queryFn (useGetRequest id url options) = (\<lambda>fetch. useGetRequest_queryFn fetch url)"
    by (simp add: useGetRequest_def useRequest_def)
  moreover have "m_mutationFn (usePostRequest id url moptions)
      = (\<lambda>fetch stringify variables. usePostRequest_mutationFn fetch stringify url variables)"
    by (simp add: usePostRequest_def useRequestMutation_def)
  moreover have "m_mutationFn (usePutRequest id url moptions)
      = (\<lambda>fetch stringify variables. usePutRequest_mutationFn fetch stringify url variables)"
    by (simp add: usePutRequest_def useRequestMutation_def)
  moreover have "m_mutationFn (useDeleteRequest id url moptions)
      = (\<lambda>fetch stringify variables. useDeleteRequest_mutationFn fetch stringify url variables)"
    by (simp add: useDeleteRequest_def useRequestMutation_def)
  ultimately show ?thesis
    using useGetRequest_queryFn_contract [of fetch url]
      usePostRequest_mutationFn_contract [of fetch stringify url variables]
      usePutRequest_mutationFn_contract [of fetch stringify url variables]
      useDeleteRequest_mutationFn_contract [of fetch stringify url variables]
    by simp
qed

theorem request_functions_http_contract_witness:
  "fetch_server_error (posts_url, None) = Inr server_error
   \<and> \<not> (200 \<le> status server_error \<and> status server_error \<le> 299)
   \<and> useGetRequest_queryFn fetch_server_error posts_url
       = ([(posts_url, None)], Inl (HttpError 500))
   \<and> fetch_created (mutation_call posts_url ''POST'' (Some ''title'')) = Inr created
   \<and> 200 \<le> status created \<and> status created \<le> 299
   \<and> usePostRequest_mutationFn fetch_created stringify_text posts_url ''title''
       = ([mutation_call posts_url ''POST'' (Some ''title'')], Inr ''id 101'')"
proof -
  have bad: "fetch_server_error (posts_url, None) = Inr server_error"
    and good: "fetch_created (mutation_call posts_url ''POST'' (Some ''title'')) = Inr created"
    by (simp_all add: fetch_server_error_def fetch_created_def)
  have "http_contract fetch_server_error (posts_url, None)
      (useGetRequest_queryFn fetch_server_error posts_url)"
    by (rule request_functions_http_contract
          [THEN conjunct2, THEN conjunct2, THEN conjunct2, THEN conjunct2, THEN conjunct1])
  then have get: "useGetRequest_queryFn fetch_server_error posts_url
      = ([(posts_url, None)], Inl (HttpError 500))"
    unfolding http_contract_def bad
    by (cases "useGetRequest_queryFn fetch_server_error posts_url")
       (auto simp: server_error_def)
  have "\<forall>(mutationFn', verb) \<in> set [(usePostRequest_mutationFn, ''POST''),
                                      (usePutRequest_mutationFn, ''PUT''),
                                      (useDeleteRequest_mutationFn, ''DELETE'')].
      case stringify_text ''title'' of
        Inl reason \<Rightarrow>
          mutationFn' fetch_created stringify_text posts_url ''title''
            = ([], Inl (Rejected reason))
      | Inr text \<Rightarrow>
          http_contract fetch_created (mutation_call posts_url verb text)
            (mutationFn' fetch_created stringify_text posts_url ''title'')"
    by (rule request_functions_http_contract
          [THEN conjunct2, THEN conjunct2, THEN conjunct2, THEN conjunct2, THEN conjunct2])
  then have "http_contract fetch_created (mutation_call posts_url ''POST'' (Some ''title''))
      (usePostRequest_mutationFn fetch_created stringify_text posts_url ''title'')"
    by (simp add: stringify_text_def)
  then have post: "usePostRequest_mutationFn fetch_created stringify_text posts_url ''title''
      = ([mutation_call posts_url ''POST'' (Some ''title'')], Inr ''id 101'')"
    unfolding http_contract_def good
    by (cases "usePostRequest_mutationFn fetch_created stringify_text posts_url ''title''")
       (auto simp: created_def response_json_def)
  show ?thesis
    using bad good get post by (simp add: server_error_def created_def)
qed

text \<open>
  Claim C8 as stated, an error exactly when the status is not 2xx, fails for a DELETE
  answered with 204 No Content: the status is 2xx, the body is empty, and the mutation
  function rejects with the parser's error.
\<close>

theorem status_check_counterexample:
  "fetch_no_content (mutation_call ''/api/users'' ''DELETE'' (Some ''1'')) = Inr no_content
   \<and> 200 \<le> status no_content \<and> status no_content \<le> 299
   \<and> useDeleteRequest_mutationFn fetch_no_content stringify_text ''/api/users'' ''1''
       = ([mutation_call ''/api/users'' ''DELETE'' (Some ''1'')],
          Inl (Rejected ''Unexpected end of JSON input''))"
  by (simp add: useDeleteRequest_mutationFn_def fetch_no_content_def no_content_def
        stringify_text_def mutation_call_def ok_def)

subsection \<open>Defaults of a query activation\<close>

text \<open>
  Claim C9. For every query activation, an omitted option takes its default, and the
  defaults are exactly: staleTime 300000 ms, cacheTime 600000 ms, refetchOnWindowFocus
  false, retry 3, enabled true; an option that is supplied overrides its default. So
  \<^verbatim>\<open>useRequest\<close> calls \<^verbatim>\<open>useQuery\<close> with the given key and function and these values, and
  \<^verbatim>\<open>useGetRequest\<close> without options activates its query with all five defaults.
\<close>

theorem useRequest_defaults:
  "useRequest useQuery options = useQuery \<lparr>
     q_queryKey = queryKey options,
     q_queryFn = queryFn options,
     q_enabled = (case enabled options of None \<Rightarrow> Plain True | Some v \<Rightarrow> v),
     q_staleTime = (case staleTime options of None \<Rightarrow> 300000 | Some v \<Rightarrow> v),
     q_cacheTime = (case cacheTime options of None \<Rightarrow> 600000 | Some v \<Rightarrow> v),
     q_refetchOnWindowFocus =
       (case refetchOnWindowFocus options of None \<Rightarrow> False | Some v \<Rightarrow> v),
     q_retry = (case retry options of None \<Rightarrow> RetryCount 3 | Some v \<Rightarrow> v) \<rparr>
   \<and> useGetRequest useQuery' url None = useQuery' \<lparr>
     q_queryKey = [''get'', url],
     q_queryFn = (\<lambda>fetch. useGetRequest_queryFn fetch url),
     q_enabled = Plain True,
     q_staleTime = 300000,
     q_cacheTime = 600000,
     q_refetchOnWindowFocus = False,
     q_retry = RetryCount 3 \<rparr>"
  by (simp add: useRequest_def useGetRequest_def split: option.split)

theorem useRequest_defaults_witness:
  "useRequest id \<lparr> enabled = None, staleTime = None, cacheTime = None,
       refetchOnWindowFocus = None, retry = None,
       queryKey = [''users''], queryFn = () \<rparr>
     = \<lparr> q_queryKey = [''users''], q_queryFn = (), q_enabled = Plain True,
         q_staleTime = 300000, q_cacheTime = 600000, q_refetchOnWindowFocus = False,
         q_retry = RetryCount 3 \<rparr>
   \<and> useRequest id \<lparr> enabled = Some (Plain False), staleTime = Some 0, cacheTime = Some 1,
       refetchOnWindowFocus = Some True, retry = Some (RetryFlag False),
       queryKey = [''users''], queryFn = () \<rparr>
     = \<lparr> q_queryKey = [''users''], q_queryFn = (), q_enabled = Plain False,
         q_staleTime = 0, q_cacheTime = 1, q_refetchOnWindowFocus = True,
         q_retry = RetryFlag False \<rparr>"
  using
    useRequest_defaults [THEN conjunct1, of id "\<lparr> enabled = None, staleTime = None, cacheTime = None,
       refetchOnWindowFocus = None, retry = None,
       queryKey = [''users''], queryFn = () \<rparr>"]
    useRequest_defaults [THEN conjunct1, of id "\<lparr> enabled = Some (Plain False), staleTime = Some 0,
       cacheTime = Some 1, refetchOnWindowFocus = Some True, retry = Some (RetryFlag False),
       queryKey = [''users''], queryFn = () \<rparr>"]
  by simp

end
